theory Spec2Isabelle
  imports Complex_Main "HOL-Library.Sublist"
begin

section \<open>Session health checker: \<^verbatim>\<open>skills/session-health/scripts/check_sessions.py\<close>\<close>

text \<open>
  The script walks a directory tree, reads every \<^verbatim>\<open>*.jsonl\<close> file line by line,
  aggregates counters per file, derives a list of issue messages from the counters and,
  with \<^verbatim>\<open>--fix\<close>, removes the files one of whose issue messages contains the text
  \<^verbatim>\<open>CRITICAL\<close>.

  What the model takes as given:
  \<^item> \<^verbatim>\<open>json.loads\<close> is the standard library's. A line of a file is modelled by its
    outcome: \<^verbatim>\<open>JSONDecodeError\<close>, the decoded Python value (a dict is the list of its
    items, each key once), or another exception.
  \<^item> JSON numbers are the integers (Python \<^verbatim>\<open>int\<close>); floating-point numerals are
    outside the model.
  \<^item> A string is a list of characters, one \<open>char\<close> per code point.
  \<^item> The size in kilobytes, \<^verbatim>\<open>st_size / 1024\<close>, is an exact rational number; Python's
    float division is exact for sizes below \<open>2\<^sup>5\<^sup>3\<close> bytes.
  \<^item> The file system is a map from paths to files; a file is what \<^verbatim>\<open>stat\<close>,
    \<^verbatim>\<open>open\<close> and the line iterator deliver for it.
\<close>

subsection \<open>Decoded values\<close>

datatype json =
    JNull
  | JBool bool
  | JInt int
  | JStr string
  | JArr "json list"
  | JObj "(string \<times> json) list"

text \<open>
  Outcome of \<^verbatim>\<open>json.loads(line)\<close>: it raises \<^verbatim>\<open>JSONDecodeError\<close>, or it returns the
  decoded value, or it raises another exception, given by its message (\<^verbatim>\<open>ValueError\<close> on
  a numeral of more than 4300 digits, \<^verbatim>\<open>RecursionError\<close> on deep nesting).
\<close>

datatype line = Malformed | Decoded json | Raised string

text \<open>Python's \<^verbatim>\<open>type(v).__name__\<close>, as it appears in exception messages.\<close>

fun type_name :: "json \<Rightarrow> string" where
  "type_name JNull = ''NoneType''"
| "type_name (JBool _) = ''bool''"
| "type_name (JInt _) = ''int''"
| "type_name (JStr _) = ''str''"
| "type_name (JArr _) = ''list''"
| "type_name (JObj _) = ''dict''"

text \<open>Truth value of a Python object in a condition.\<close>

fun truthy :: "json \<Rightarrow> bool" where
  "truthy JNull = False"
| "truthy (JBool b) = b"
| "truthy (JInt i) = (i \<noteq> 0)"
| "truthy (JStr s) = (s \<noteq> [])"
| "truthy (JArr xs) = (xs \<noteq> [])"
| "truthy (JObj kvs) = (kvs \<noteq> [])"

text \<open>\<^verbatim>\<open>d.get(k, default)\<close> on a dict \<open>d\<close> given by its items.\<close>

definition dict_get :: "(string \<times> json) list \<Rightarrow> string \<Rightarrow> json \<Rightarrow> json" where
  "dict_get kvs k d = (case map_of kvs k of None \<Rightarrow> d | Some v \<Rightarrow> v)"

text \<open>
  The message of the \<^verbatim>\<open>AttributeError\<close> that \<^verbatim>\<open>v.get(...)\<close> raises when \<open>v\<close> is
  not a dict.
\<close>

definition no_get :: "json \<Rightarrow> string" where
  "no_get v = [CHR 0x27] @ type_name v @ [CHR 0x27] @ '' object has no attribute '' @ [CHR 0x27] @ ''get'' @ [CHR 0x27]"

subsection \<open>The counter of tool calls\<close>

text \<open>
  \<^verbatim>\<open>collections.Counter\<close>: a dict from keys to counts that keeps insertion order.
  Keys are hashable values; lists and dicts are not hashable. Key equality is Python's
  \<^verbatim>\<open>==\<close>, under which \<^verbatim>\<open>True == 1\<close> and \<^verbatim>\<open>False == 0\<close>.
\<close>

type_synonym counter = "(json \<times> nat) list"

fun hashable :: "json \<Rightarrow> bool" where
  "hashable (JArr _) = False"
| "hashable (JObj _) = False"
| "hashable _ = True"

fun key_eq :: "json \<Rightarrow> json \<Rightarrow> bool" where
  "key_eq (JBool a) (JBool b) = (a = b)"
| "key_eq (JBool a) (JInt j) = ((if a then 1 else 0) = j)"
| "key_eq (JInt i) (JBool b) = (i = (if b then 1 else 0))"
| "key_eq a b = (a = b)"

definition unhashable :: "json \<Rightarrow> string" where
  "unhashable v = ''unhashable type: '' @ [CHR 0x27] @ type_name v @ [CHR 0x27]"


text \<open>\<^verbatim>\<open>c[k] += 1\<close> for a hashable \<open>k\<close>: an existing entry keeps its key and its place.\<close>

fun counter_incr :: "json \<Rightarrow> counter \<Rightarrow> counter" where
  "counter_incr k [] = [(k, 1)]"
| "counter_incr k ((k', n) # c) =
     (if key_eq k' k then (k', n + 1) # c else (k', n) # counter_incr k c)"

text \<open>
  \<^verbatim>\<open>c.most_common(n)\<close>: the \<open>n\<close> entries of highest count, highest first, entries of
  equal count in insertion order (\<^verbatim>\<open>heapq.nlargest\<close> breaks ties by position).
\<close>

definition most_common :: "nat \<Rightarrow> counter \<Rightarrow> counter" where
  "most_common n c = take n (sort_key (\<lambda>(k, cnt). - int cnt) c)"

subsection \<open>Formatting\<close>

definition digit_char :: "nat \<Rightarrow> char" where
  "digit_char d = ''0123456789'' ! d"

fun str_nat :: "nat \<Rightarrow> string" where
  "str_nat n = (if n < 10 then [digit_char n] else str_nat (n div 10) @ [digit_char (n mod 10)])"

declare str_nat.simps [simp del]

text \<open>
  \<^verbatim>\<open>f"{x:.0f}"\<close> for \<open>x \<ge> 0\<close>: the nearest integer, a tie going to the even one.
\<close>

definition round_half_even :: "rat \<Rightarrow> nat" where
  "round_half_even x =
     (let f = nat \<lfloor>x\<rfloor>; d = x - of_nat f
      in if d < 1 / 2 then f else if 1 / 2 < d then f + 1 else if even f then f else f + 1)"

definition fmt_0f :: "rat \<Rightarrow> string" where
  "fmt_0f x = str_nat (round_half_even x)"

text \<open>\<^verbatim>\<open>sub in s\<close> on strings.\<close>

fun str_contains :: "string \<Rightarrow> string \<Rightarrow> bool" where
  "str_contains sub [] = (sub = [])"
| "str_contains sub (c # cs) = (prefix sub (c # cs) \<or> str_contains sub cs)"

text \<open>\<^verbatim>\<open>Path.name\<close>: the last component of a path.\<close>

definition path_name :: "string \<Rightarrow> string" where
  "path_name p = rev (takeWhile (\<lambda>c. c \<noteq> CHR ''/'') (rev p))"

subsection \<open>Session files and statistics\<close>

text \<open>
  What the script sees of one file: \<^verbatim>\<open>stat().st_size\<close>, the lines that the iterator
  \<^verbatim>\<open>for line in f\<close> delivers, and the message of the exception that ends the reading,
  if any (\<^verbatim>\<open>open\<close> that fails is a reading that ends before the first line).
\<close>

record session_file =
  st_size :: nat
  file_lines :: "line list"
  read_failure :: "string option"

text \<open>The dict \<^verbatim>\<open>stats\<close> of \<^verbatim>\<open>analyze_session\<close>.\<close>

record stats =
  path :: string
  name :: string
  size_kb :: rat
  message_count :: nat
  warmup_errors :: nat
  tool_calls :: counter
  is_sidechain :: bool
  issues :: "string list"

text \<open>Exceptions that leave \<^verbatim>\<open>analyze_session\<close>, and so end the run.\<close>

datatype crash =
    StatFailed string
  | NotSubscriptable json

subsection \<open>The body of the reading loop\<close>

text \<open>
  Lines 52 to 55: the loop over the content items of a record of type \<^verbatim>\<open>user\<close>.
\<close>

fun warmup_loop :: "json list \<Rightarrow> nat \<Rightarrow> nat" where
  "warmup_loop [] w = w"
| "warmup_loop (JObj kvs # items) w =
     warmup_loop items
       (if dict_get kvs ''content'' JNull = JStr ''Warmup'' \<and> truthy (dict_get kvs ''is_error'' JNull)
        then w + 1 else w)"
| "warmup_loop (_ # items) w = warmup_loop items w"

text \<open>
  Lines 61 to 66: the loop over the content items of a record of type \<^verbatim>\<open>assistant\<close>.
  A key that is not hashable raises \<^verbatim>\<open>TypeError\<close>; the counts made so far stay.
\<close>

fun tool_loop :: "json list \<Rightarrow> counter \<Rightarrow> string option \<times> counter" where
  "tool_loop [] c = (None, c)"
| "tool_loop (JObj kvs # items) c =
     (if dict_get kvs ''type'' JNull = JStr ''tool_use'' then
        (case dict_get kvs ''input'' (JObj []) of
           JObj tool_input \<Rightarrow>
             (let cmd = dict_get tool_input ''command'' (dict_get kvs ''name'' (JStr ''unknown''))
              in if hashable cmd then tool_loop items (counter_incr cmd c)
                 else (Some (unhashable cmd), c))
         | _ \<Rightarrow> tool_loop items c)
      else tool_loop items c)"
| "tool_loop (_ # items) c = tool_loop items c"

text \<open>
  Lines 45 to 66, for a decoded value \<open>msg\<close>: the statistics after it, and the message of
  the exception it raised, if any.
\<close>

fun process_msg :: "json \<Rightarrow> stats \<Rightarrow> string option \<times> stats" where
  "process_msg (JObj kvs) st =
     (let st1 = (if truthy (dict_get kvs ''isSidechain'' JNull) then st\<lparr>is_sidechain := True\<rparr> else st)
      in if dict_get kvs ''type'' JNull = JStr ''user'' then
           (case dict_get kvs ''message'' (JObj []) of
              JObj m \<Rightarrow>
                (case dict_get m ''content'' (JArr []) of
                   JArr items \<Rightarrow> (None, st1\<lparr>warmup_errors := warmup_loop items (warmup_errors st1)\<rparr>)
                 | _ \<Rightarrow> (None, st1))
            | v \<Rightarrow> (Some (no_get v), st1))
         else if dict_get kvs ''type'' JNull = JStr ''assistant'' then
           (case dict_get kvs ''message'' (JObj []) of
              JObj m \<Rightarrow>
                (case dict_get m ''content'' (JArr []) of
                   JArr items \<Rightarrow>
                     (case tool_loop items (tool_calls st1) of
                        (e, c) \<Rightarrow> (e, st1\<lparr>tool_calls := c\<rparr>))
                 | _ \<Rightarrow> (None, st1))
            | v \<Rightarrow> (Some (no_get v), st1))
         else (None, st1))"
| "process_msg v st = (Some (no_get v), st)"

text \<open>
  Lines 39 to 69: the counter goes up before the line is decoded; a line on which
  \<^verbatim>\<open>json.loads\<close> raises \<^verbatim>\<open>JSONDecodeError\<close> is skipped (line 68); any other exception,
  of \<^verbatim>\<open>json.loads\<close> or of the lines after it, ends the loop (line 71).
\<close>

fun read_lines :: "line list \<Rightarrow> stats \<Rightarrow> string option \<times> stats" where
  "read_lines [] st = (None, st)"
| "read_lines (Malformed # ls) st = read_lines ls (st\<lparr>message_count := message_count st + 1\<rparr>)"
| "read_lines (Decoded msg # ls) st =
     (case process_msg msg (st\<lparr>message_count := message_count st + 1\<rparr>) of
        (None, st') \<Rightarrow> read_lines ls st'
      | (Some e, st') \<Rightarrow> (Some e, st'))"
| "read_lines (Raised e # ls) st = (Some e, st\<lparr>message_count := message_count st + 1\<rparr>)"

text \<open>Lines 37 to 69: the whole \<^verbatim>\<open>try\<close> block on a file.\<close>

definition read_file :: "session_file \<Rightarrow> stats \<Rightarrow> string option \<times> stats" where
  "read_file f st =
     (case read_lines (file_lines f) st of
        (None, st') \<Rightarrow> (read_failure f, st')
      | (Some e, st') \<Rightarrow> (Some e, st'))"

subsection \<open>Detecting issues\<close>

definition warmup_issue :: "nat \<Rightarrow> string" where
  "warmup_issue w = ''CRITICAL: Warmup loop detected ('' @ str_nat w @ '' warmup errors)''"

definition messages_issue :: "nat \<Rightarrow> string" where
  "messages_issue n = ''WARNING: Excessive messages ('' @ str_nat n @ '')''"

definition command_issue :: "string \<Rightarrow> nat \<Rightarrow> string" where
  "command_issue cmd n = ''WARNING: Command repeated '' @ str_nat n @ ''x: '' @ take 50 cmd @ ''...''"

definition size_issue :: "rat \<Rightarrow> string" where
  "size_issue kb = ''WARNING: Large session file ('' @ fmt_0f kb @ ''KB)''"

definition read_error_issue :: "string \<Rightarrow> string" where
  "read_error_issue e = ''Error reading file: '' @ e"

text \<open>
  Lines 83 to 85. \<^verbatim>\<open>cmd[:50]\<close> is a slice of a string; on a key of another type it raises
  \<^verbatim>\<open>TypeError\<close>, outside every \<^verbatim>\<open>try\<close>.
\<close>

fun command_loop :: "counter \<Rightarrow> string list \<Rightarrow> crash + string list" where
  "command_loop [] iss = Inr iss"
| "command_loop ((cmd, n) # c) iss =
     (if 50 < n then
        (case cmd of
           JStr s \<Rightarrow> command_loop c (iss @ [command_issue s n])
         | _ \<Rightarrow> Inl (NotSubscriptable cmd))
      else command_loop c iss)"

text \<open>Lines 76 to 90.\<close>

definition detect_issues :: "stats \<Rightarrow> crash + stats" where
  "detect_issues st =
     (let i1 = (if 10 < warmup_errors st then issues st @ [warmup_issue (warmup_errors st)] else issues st);
          i2 = (if 500 < message_count st then i1 @ [messages_issue (message_count st)] else i1)
      in case command_loop (most_common 5 (tool_calls st)) i2 of
           Inl x \<Rightarrow> Inl x
         | Inr i3 \<Rightarrow>
             Inr (st\<lparr>issues := (if 2000 < size_kb st then i3 @ [size_issue (size_kb st)] else i3)\<rparr>))"

subsection \<open>\<^verbatim>\<open>analyze_session\<close>\<close>

type_synonym files = "string \<rightharpoonup> session_file"

definition init_stats :: "string \<Rightarrow> session_file \<Rightarrow> stats" where
  "init_stats p f =
     \<lparr>path = p, name = path_name p, size_kb = of_nat (st_size f) / 1024, message_count = 0,
      warmup_errors = 0, tool_calls = [], is_sidechain = False, issues = []\<rparr>"

text \<open>
  \<^verbatim>\<open>stat()\<close> on line 29 stands before the \<^verbatim>\<open>try\<close>: on a path that has no file its
  exception leaves the function.
\<close>

definition analyze_session :: "files \<Rightarrow> string \<Rightarrow> crash + stats" where
  "analyze_session fs p =
     (case fs p of
        None \<Rightarrow> Inl (StatFailed p)
      | Some f \<Rightarrow>
          (case read_file f (init_stats p f) of
             (Some e, st) \<Rightarrow> Inr (st\<lparr>issues := issues st @ [read_error_issue e]\<rparr>)
           | (None, st) \<Rightarrow> detect_issues st))"

subsection \<open>\<^verbatim>\<open>main\<close>\<close>

text \<open>
  The command line, and the part of the world the run touches: which paths exist, what
  \<^verbatim>\<open>find_sessions\<close> returns for a root (the order is the traversal's), the files as
  \<^verbatim>\<open>analyze_session\<close> finds them afterwards (a path that \<^verbatim>\<open>find_sessions\<close> returned may
  have no file by then), and the paths on which \<^verbatim>\<open>os.remove\<close> is refused, with the
  message of the exception.
\<close>

record args =
  fix_flag :: bool
  path_arg :: string
  json_flag :: bool

record world =
  path_exists :: "string \<Rightarrow> bool"
  find_sessions :: "string \<Rightarrow> string list"
  files :: files
  remove_refused :: "string \<rightharpoonup> string"

definition no_such_file :: "string \<Rightarrow> string" where
  "no_such_file p = ''[Errno 2] No such file or directory: '' @ [CHR 0x27] @ p @ [CHR 0x27]"

text \<open>\<^verbatim>\<open>os.remove(p)\<close>: the message of its exception, if it raises, and the world after it.\<close>

definition os_remove :: "world \<Rightarrow> string \<Rightarrow> string option \<times> world" where
  "os_remove w p =
     (case files w p of
        None \<Rightarrow> (Some (no_such_file p), w)
      | Some f \<Rightarrow>
          (case remove_refused w p of
             Some e \<Rightarrow> (Some e, w)
           | None \<Rightarrow> (None, w\<lparr>files := (files w)(p := None)\<rparr>)))"

text \<open>Lines 118 to 122: \<open>results\<close> and \<open>problematic\<close> grow file by file.\<close>

fun analyze_all :: "files \<Rightarrow> string list \<Rightarrow> stats list \<Rightarrow> stats list \<Rightarrow> crash + stats list \<times> stats list" where
  "analyze_all fs [] results problematic = Inr (results, problematic)"
| "analyze_all fs (p # ps) results problematic =
     (case analyze_session fs p of
        Inl x \<Rightarrow> Inl x
      | Inr st \<Rightarrow>
          analyze_all fs ps (results @ [st])
            (if issues st \<noteq> [] then problematic @ [st] else problematic))"

definition rule_line :: string where
  "rule_line = replicate 60 CHR ''=''"

definition str_bool :: "bool \<Rightarrow> string" where
  "str_bool b = (if b then ''True'' else ''False'')"

text \<open>Lines 141 to 146: what is printed for one problematic file.\<close>

definition report_file :: "stats \<Rightarrow> string list" where
  "report_file st =
     [[CHR 0x0A] @ name st,
      ''  Size: '' @ fmt_0f (size_kb st) @ ''KB | Messages: '' @ str_nat (message_count st),
      ''  Warmup errors: '' @ str_nat (warmup_errors st),
      ''  Sidechain: '' @ str_bool (is_sidechain st)]
     @ map (\<lambda>i. ''  -> '' @ i) (issues st)"

text \<open>
  Lines 152 to 158: a file is removed when one of its issue messages contains the text
  \<^verbatim>\<open>CRITICAL\<close>; a removal that fails is reported and the loop goes on.
\<close>

fun cleanup :: "stats list \<Rightarrow> world \<Rightarrow> string list \<Rightarrow> world \<times> string list" where
  "cleanup [] w out = (w, out)"
| "cleanup (st # sts) w out =
     (if list_ex (str_contains ''CRITICAL'') (issues st) then
        (case os_remove w (path st) of
           (None, w') \<Rightarrow> cleanup sts w' (out @ [''Removed: '' @ name st])
         | (Some e, w') \<Rightarrow> cleanup sts w' (out @ [''Failed to remove '' @ name st @ '': '' @ e]))
      else cleanup sts w out)"

text \<open>
  What the run printed: the list of statistics handed to \<^verbatim>\<open>json.dumps\<close>, or the lines
  of the summary.
\<close>

datatype printed = JsonDump "stats list" | Printed "string list"

text \<open>
  How \<^verbatim>\<open>main\<close> ends: \<^verbatim>\<open>sys.exit\<close> inside it, a return (of nothing, or of a number), or
  an exception that nothing catches.
\<close>

datatype ending = SysExit nat | Return "nat option" | Uncaught crash

definition main :: "args \<Rightarrow> world \<Rightarrow> world \<times> printed \<times> ending" where
  "main a w =
     (if \<not> path_exists w (path_arg a) then
        (w, Printed [''Path not found: '' @ path_arg a], SysExit 1)
      else
        let sessions = find_sessions w (path_arg a) in
        case analyze_all (files w) sessions [] [] of
          Inl x \<Rightarrow> (w, Printed [], Uncaught x)
        | Inr (results, problematic) \<Rightarrow>
            if json_flag a then (w, JsonDump results, Return None)
            else
              let head = [[CHR 0x0A] @ rule_line, ''SESSION HEALTH CHECK'', rule_line,
                          ''Total sessions: '' @ str_nat (length sessions),
                          ''Problematic: '' @ str_nat (length problematic)]
              in if problematic \<noteq> [] then
                   let listed = head @ [[CHR 0x0A] @ rule_line, ''ISSUES FOUND:'', rule_line]
                                  @ concat (map report_file problematic)
                   in if fix_flag a then
                        (case cleanup problematic w
                                (listed @ [[CHR 0x0A] @ rule_line, ''CLEANING UP...'', rule_line]) of
                           (w', out) \<Rightarrow> (w', Printed out, Return (Some (length problematic))))
                      else (w, Printed listed, Return (Some (length problematic)))
                 else (w, Printed (head @ [[CHR 0x0A] @ ''All sessions healthy!'']),
                       Return (Some (length problematic))))"

text \<open>
  \<^verbatim>\<open>sys.exit(main())\<close>: the exit status of the process. \<^verbatim>\<open>sys.exit(None)\<close> is status 0;
  an exception that nothing catches is status 1. (The operating system keeps the low
  eight bits of the number; the model keeps the number given to \<^verbatim>\<open>sys.exit\<close>.)
\<close>

fun exit_status :: "ending \<Rightarrow> nat" where
  "exit_status (SysExit n) = n"
| "exit_status (Return None) = 0"
| "exit_status (Return (Some n)) = n"
| "exit_status (Uncaught x) = 1"

definition run_exit_status :: "args \<Rightarrow> world \<Rightarrow> nat" where
  "run_exit_status a w = exit_status (snd (snd (main a w)))"

definition run_files :: "args \<Rightarrow> world \<Rightarrow> files" where
  "run_files a w = files (fst (main a w))"

subsection \<open>The rules of the specification\<close>

text \<open>The \<^verbatim>\<open>type\<close> field of a record, and the items of its \<^verbatim>\<open>message.content\<close> list.\<close>

definition record_type :: "json \<Rightarrow> json" where
  "record_type msg = (case msg of JObj kvs \<Rightarrow> dict_get kvs ''type'' JNull | _ \<Rightarrow> JNull)"

definition content_items :: "json \<Rightarrow> json list" where
  "content_items msg =
     (case msg of
        JObj kvs \<Rightarrow>
          (case dict_get kvs ''message'' (JObj []) of
             JObj m \<Rightarrow> (case dict_get m ''content'' (JArr []) of JArr items \<Rightarrow> items | _ \<Rightarrow> [])
           | _ \<Rightarrow> [])
      | _ \<Rightarrow> [])"

text \<open>
  A true value, as a condition takes it: every value but \<^verbatim>\<open>null\<close>, \<^verbatim>\<open>false\<close>, the number
  0, the empty string, the empty list and the empty mapping. A non-empty string and a
  number other than 0 are true values, as the boolean \<^verbatim>\<open>true\<close> is.
\<close>

definition is_true_value :: "json \<Rightarrow> bool" where
  "is_true_value v = (v \<notin> set [JNull, JBool False, JInt 0, JStr [], JArr [], JObj []])"

text \<open>
  A warmup error: a content item (a mapping) whose \<^verbatim>\<open>content\<close> is the text
  \<^verbatim>\<open>Warmup\<close> and whose \<^verbatim>\<open>is_error\<close> is present and a true value.
\<close>

definition is_warmup_item :: "json \<Rightarrow> bool" where
  "is_warmup_item item =
     (case item of
        JObj kvs \<Rightarrow>
          map_of kvs ''content'' = Some (JStr ''Warmup'') \<and>
          (case map_of kvs ''is_error'' of Some v \<Rightarrow> is_true_value v | None \<Rightarrow> False)
      | _ \<Rightarrow> False)"

subsection \<open>Counting rules, as amended\<close>









subsection \<open>Kinds of issue\<close>

text \<open>The size WARNING and the WARNING of a repeated command, told by how they begin.\<close>

definition is_size_issue :: "string \<Rightarrow> bool" where
  "is_size_issue i = prefix ''WARNING: Large session file ('' i"

definition is_command_issue :: "string \<Rightarrow> bool" where
  "is_command_issue i = prefix ''WARNING: Command repeated '' i"

text \<open>An entry of the counter whose count is above 50.\<close>

definition often :: "json \<times> nat \<Rightarrow> bool" where
  "often e = (50 < snd e)"

text \<open>
  The WARNINGs for the entries of \<open>c\<close> whose count is above 50, one per entry, in the
  order of \<open>c\<close>; each cites the first 50 characters of the name and the count.
\<close>

definition command_issues_of :: "counter \<Rightarrow> string list" where
  "command_issues_of c =
     concat (map (\<lambda>(k, n). case k of JStr s \<Rightarrow> [command_issue s n] | _ \<Rightarrow> []) (filter often c))"

subsection \<open>The most invoked names\<close>




subsection \<open>Statistics that differ by one record\<close>



subsection \<open>Sample inputs\<close>

definition sample_root :: string where
  "sample_root = ''/sessions''"

definition sample_a :: string where
  "sample_a = ''/sessions/a.jsonl''"

definition sample_b :: string where
  "sample_b = ''/sessions/b.jsonl''"

text \<open>A world whose root holds the files \<open>fs\<close>, found in the order \<open>found\<close>.\<close>

definition sample_world :: "string list \<Rightarrow> files \<Rightarrow> world" where
  "sample_world found fs =
     \<lparr>path_exists = (\<lambda>p. p = sample_root),
      find_sessions = (\<lambda>r. if r = sample_root then found else []),
      files = fs,
      remove_refused = Map.empty\<rparr>"

definition sample_args :: "bool \<Rightarrow> bool \<Rightarrow> args" where
  "sample_args fx js = \<lparr>fix_flag = fx, path_arg = sample_root, json_flag = js\<rparr>"

text \<open>The content item \<^verbatim>\<open>{"content": "Warmup", "is_error": true}\<close>.\<close>

definition warmup_item :: json where
  "warmup_item = JObj [(''content'', JStr ''Warmup''), (''is_error'', JBool True)]"

text \<open>
  The line \<^verbatim>\<open>{"type": "user", "message": {"content": [...]}}\<close> with \<open>k\<close> such items.
\<close>

definition warmup_line :: "nat \<Rightarrow> line" where
  "warmup_line k =
     Decoded (JObj [(''type'', JStr ''user''),
                    (''message'', JObj [(''content'', JArr (replicate k warmup_item))])])"

text \<open>The empty record \<^verbatim>\<open>{}\<close> on a line of its own: three bytes.\<close>

definition empty_line :: line where
  "empty_line = Decoded (JObj [])"

definition healthy_file :: session_file where
  "healthy_file = \<lparr>st_size = 3, file_lines = [empty_line], read_failure = None\<rparr>"

text \<open>One line that holds eleven warmup errors.\<close>

definition warmup_file :: session_file where
  "warmup_file = \<lparr>st_size = 447, file_lines = [warmup_line 11], read_failure = None\<rparr>"

text \<open>
  The line of an assistant record that calls the tool \<^verbatim>\<open>Bash\<close> with the command \<open>c\<close>:
  \<^verbatim>\<open>{"type":"assistant","message":{"content":[{"type":"tool_use","name":"Bash","input":{"command":c}}]}}\<close>.
\<close>

definition tool_line :: "string \<Rightarrow> line" where
  "tool_line c =
     Decoded (JObj [(''type'', JStr ''assistant''),
                    (''message'', JObj [(''content'', JArr [JObj [(''type'', JStr ''tool_use''),
                        (''name'', JStr ''Bash''), (''input'', JObj [(''command'', JStr c)])]])])])"

text \<open>Fifty-one lines that call \<^verbatim>\<open>echo CRITICAL\<close>, 115 bytes each.\<close>

definition critical_word_file :: session_file where
  "critical_word_file =
     \<lparr>st_size = 5865, file_lines = replicate 51 (tool_line ''echo CRITICAL''), read_failure = None\<rparr>"






text \<open>
  A file of 2049 KB that holds one record: \<^verbatim>\<open>{\<close>, 2098173 spaces, \<^verbatim>\<open>}\<close> and the end of
  the line. The same with 2047997 spaces is a file of exactly 2000 KB.
\<close>

definition large_file :: session_file where
  "large_file = \<lparr>st_size = 2098176, file_lines = [empty_line], read_failure = None\<rparr>"

definition exact_file :: session_file where
  "exact_file = \<lparr>st_size = 2048000, file_lines = [empty_line], read_failure = None\<rparr>"

text \<open>
  A file of 2050.5 KB that holds one record: the size stands halfway between 2050 and
  2051 kilobytes.
\<close>

definition tie_file :: session_file where
  "tie_file = \<lparr>st_size = 2099712, file_lines = [empty_line], read_failure = None\<rparr>"

text \<open>A file of 3000000 bytes whose reading fails with an input/output error.\<close>

definition big_unreadable_file :: session_file where
  "big_unreadable_file =
     \<lparr>st_size = 3000000, file_lines = [], read_failure = Some ''[Errno 5] Input/output error''\<rparr>"





text \<open>
  A record of type \<open>t\<close> with ten content items. Three are warmup errors: their
  \<^verbatim>\<open>is_error\<close> is \<^verbatim>\<open>true\<close>, the string \<^verbatim>\<open>yes\<close> and the number 1. Seven are not:
  \<^verbatim>\<open>is_error\<close> is 0, the empty string, \<^verbatim>\<open>false\<close>, \<^verbatim>\<open>null\<close> or absent, the
  \<^verbatim>\<open>content\<close> is \<^verbatim>\<open>warmup\<close> in lower case, or the item is a string.
\<close>

definition warmup_variants :: "json list" where
  "warmup_variants =
     [JObj [(''content'', JStr ''Warmup''), (''is_error'', JBool True)],
      JObj [(''content'', JStr ''Warmup''), (''is_error'', JStr ''yes'')],
      JObj [(''content'', JStr ''Warmup''), (''is_error'', JInt 1)],
      JObj [(''content'', JStr ''Warmup''), (''is_error'', JInt 0)],
      JObj [(''content'', JStr ''Warmup''), (''is_error'', JStr [])],
      JObj [(''content'', JStr ''Warmup''), (''is_error'', JBool False)],
      JObj [(''content'', JStr ''Warmup''), (''is_error'', JNull)],
      JObj [(''content'', JStr ''Warmup'')],
      JObj [(''content'', JStr ''warmup''), (''is_error'', JBool True)],
      JStr ''Warmup'']"

definition variants_msg :: "string \<Rightarrow> json" where
  "variants_msg t =
     JObj [(''type'', JStr t), (''message'', JObj [(''content'', JArr warmup_variants)])]"


text \<open>
  Fifty-one lines
  \<^verbatim>\<open>{"type":"assistant","message":{"content":[{"type":"tool_use","name":"Bash","input":{"command":null}}]}}\<close>
  of 104 bytes each: the name counted is \<^verbatim>\<open>None\<close>.
\<close>

definition null_command_line :: line where
  "null_command_line =
     Decoded (JObj [(''type'', JStr ''assistant''),
                    (''message'', JObj [(''content'', JArr [JObj [(''type'', JStr ''tool_use''),
                        (''name'', JStr ''Bash''), (''input'', JObj [(''command'', JNull)])]])])])"

definition null_command_file :: session_file where
  "null_command_file =
     \<lparr>st_size = 5304, file_lines = replicate 51 null_command_line, read_failure = None\<rparr>"


section \<open>Properties\<close>

lemmas run_defs =
  main_def analyze_session_def read_file_def init_stats_def detect_issues_def most_common_def
  dict_get_def path_name_def sample_world_def sample_args_def sample_root_def sample_a_def
  sample_b_def run_exit_status_def run_files_def Let_def

lemmas issue_defs =
  warmup_issue_def messages_issue_def command_issue_def size_issue_def read_error_issue_def
  fmt_0f_def round_half_even_def digit_char_def

subsection \<open>Warmup errors\<close>

lemma truthy_iff: "truthy v \<longleftrightarrow> is_true_value v"
  by (cases v) (auto simp: is_true_value_def)

lemma warmup_loop_count: "warmup_loop items w = w + length (filter is_warmup_item items)"
  by (induction items w rule: warmup_loop.induct)
     (simp_all add: is_warmup_item_def dict_get_def truthy_iff is_true_value_def
        split: option.split)

text \<open>
  C10. A content item counts as a warmup error exactly when it stands in a record whose
  \<^verbatim>\<open>type\<close> is \<^verbatim>\<open>user\<close>, its \<^verbatim>\<open>content\<close> is the text \<^verbatim>\<open>Warmup\<close> and its
  \<^verbatim>\<open>is_error\<close> is a true value of any type: a record raises the count of warmup errors
  by the number of such items in it, and a record of another type leaves it as it is.
\<close>

theorem warmup_errors_per_item:
  "warmup_errors (snd (process_msg msg st)) =
     warmup_errors st +
       (if record_type msg = JStr ''user''
        then length (filter is_warmup_item (content_items msg)) else 0)"
  by (cases msg)
     (simp_all add: record_type_def content_items_def warmup_loop_count Let_def
        split: json.split prod.split)

text \<open>
  The record of ten items, evaluated: as a \<^verbatim>\<open>user\<close> record it adds 3 to the count, as
  an \<^verbatim>\<open>assistant\<close> record or a record of type \<^verbatim>\<open>User\<close> it adds nothing.
\<close>

theorem warmup_errors_per_item_witness:
  "warmup_errors (snd (process_msg (variants_msg ''user'') (init_stats sample_a healthy_file))) = 3
   \<and> length (filter is_warmup_item (content_items (variants_msg ''user''))) = 3
   \<and> map is_warmup_item warmup_variants
       = [True, True, True, False, False, False, False, False, False, False]
   \<and> warmup_errors (snd (process_msg (variants_msg ''assistant'') (init_stats sample_a healthy_file))) = 0
   \<and> warmup_errors (snd (process_msg (variants_msg ''User'') (init_stats sample_a healthy_file))) = 0"
proof -
  have code: "warmup_loop warmup_variants 0 = 3"
    by (simp add: warmup_variants_def dict_get_def)
  have spec: "map is_warmup_item warmup_variants
                = [True, True, True, False, False, False, False, False, False, False]"
    by (simp add: warmup_variants_def is_warmup_item_def is_true_value_def)
  have items: "content_items (variants_msg t) = warmup_variants" for t
    by (simp add: variants_msg_def content_items_def dict_get_def)
  have ty: "record_type (variants_msg t) = JStr t" for t
    by (simp add: variants_msg_def record_type_def dict_get_def)
  have run: "warmup_errors (snd (process_msg (variants_msg ''user'') (init_stats sample_a healthy_file))) = 3"
    using code by (simp add: variants_msg_def dict_get_def init_stats_def)
  have n: "length (filter is_warmup_item warmup_variants) = 3"
    by (simp add: warmup_variants_def is_warmup_item_def is_true_value_def)
  show ?thesis
    using warmup_errors_per_item [of "variants_msg ''user''" "init_stats sample_a healthy_file"]
      warmup_errors_per_item [of "variants_msg ''assistant''" "init_stats sample_a healthy_file"]
      warmup_errors_per_item [of "variants_msg ''User''" "init_stats sample_a healthy_file"]
      run spec n
    by (simp add: items ty init_stats_def)
qed

subsection \<open>Files that cannot be read\<close>

text \<open>
  A file that \<^verbatim>\<open>stat\<close> finds and \<^verbatim>\<open>open\<close> refuses gets the read-error issue and
  counts of zero.
\<close>

lemma open_failure_recovered:
  assumes "fs p = Some f" and "file_lines f = []" and "read_failure f = Some e"
  shows "analyze_session fs p = Inr ((init_stats p f)\<lparr>issues := [read_error_issue e]\<rparr>)"
  using assms by (simp add: analyze_session_def read_file_def init_stats_def)

text \<open>
  C4. The file at \<^verbatim>\<open>/sessions/a.jsonl\<close> was found and is gone when it is analysed;
  \<^verbatim>\<open>/sessions/b.jsonl\<close> is healthy. \<^verbatim>\<open>stat\<close> on line 29 raises before the \<^verbatim>\<open>try\<close>
  of line 37 is entered: the run ends there, with no statistics for either file.
\<close>

theorem vanished_file_ends_run:
  "main (sample_args False False) (sample_world [sample_a, sample_b] [sample_b \<mapsto> healthy_file])
   = (sample_world [sample_a, sample_b] [sample_b \<mapsto> healthy_file], Printed [],
      Uncaught (StatFailed ''/sessions/a.jsonl''))"
  by (simp add: run_defs)

subsection \<open>Evaluation of the samples\<close>

lemma str_nat_samples:
  "str_nat 1 = ''1''" "str_nat 11 = ''11''" "str_nat 51 = ''51''" "str_nat 501 = ''501''"
  "str_nat 2049 = ''2049''" "str_nat 2050 = ''2050''" "str_nat 60 = ''60''"
  by (simp_all add: str_nat.simps digit_char_def)

lemma key_eq_refl [simp]: "key_eq k k"
  by (cases k) simp_all

lemma counter_incr_same: "(counter_incr k ^^ n) ((k, m) # c) = (k, m + n) # c"
  by (induction n arbitrary: m) (simp_all add: funpow_swap1)

lemma counter_incr_fresh: "(counter_incr k ^^ Suc n) [] = [(k, Suc n)]"
  using counter_incr_same [where k = k and n = n and m = 1 and c = "[]"]
  by (simp add: funpow_swap1)

lemma tool_lines_read:
  "read_lines (replicate n (tool_line c)) st =
     (None, st\<lparr>message_count := message_count st + n,
               tool_calls := (counter_incr (JStr c) ^^ n) (tool_calls st)\<rparr>)"
  by (induction n arbitrary: st) (simp_all add: tool_line_def dict_get_def funpow_swap1)


lemma critical_word_file_stats:
  "analyze_session [sample_a \<mapsto> critical_word_file] sample_a =
     Inr \<lparr>path = ''/sessions/a.jsonl'', name = ''a.jsonl'', size_kb = 5865 / 1024,
          message_count = 51, warmup_errors = 0,
          tool_calls = [(JStr ''echo CRITICAL'', 51)], is_sidechain = False,
          issues = [''WARNING: Command repeated 51x: echo CRITICAL...'']\<rparr>"
proof -
  have "(counter_incr (JStr ''echo CRITICAL'') ^^ 51) [] = [(JStr ''echo CRITICAL'', 51)]"
    using counter_incr_fresh [where k = "JStr ''echo CRITICAL''" and n = 50] by simp
  then show ?thesis
    by (simp add: run_defs critical_word_file_def tool_lines_read command_issue_def
        str_nat_samples)
qed

subsection \<open>Cleanup\<close>

lemma os_remove_other: "p \<noteq> q \<Longrightarrow> files (snd (os_remove w q)) p = files w p"
  by (simp add: os_remove_def split: option.split)

text \<open>
  What the cleanup does keep: a file none of whose issue messages contains the text
  \<^verbatim>\<open>CRITICAL\<close>.
\<close>

lemma cleanup_keeps:
  assumes "\<And>st. st \<in> set sts \<Longrightarrow> path st = p \<Longrightarrow>
             \<not> list_ex (str_contains ''CRITICAL'') (issues st)"
  shows "files (fst (cleanup sts w out)) p = files w p"
  using assms
proof (induction sts arbitrary: w out)
  case Nil
  then show ?case by simp
next
  case (Cons st sts)
  have rest: "files (fst (cleanup sts w' out')) p = files w' p" for w' out'
    using Cons.IH Cons.prems by simp
  show ?case
  proof (cases "list_ex (str_contains ''CRITICAL'') (issues st)")
    case True
    then have ne: "p \<noteq> path st" using Cons.prems by auto
    obtain e w' where r: "os_remove w (path st) = (e, w')" by (cases "os_remove w (path st)")
    have keep: "files w' p = files w p" using os_remove_other [OF ne, of w] r by simp
    show ?thesis using True r keep rest by (cases e) simp_all
  next
    case False
    then show ?thesis using rest by simp
  qed
qed

text \<open>
  C1. The file \<^verbatim>\<open>/sessions/a.jsonl\<close> holds fifty-one calls of the command
  \<^verbatim>\<open>echo CRITICAL\<close>. Its only issue is a WARNING, the one of the repeated command, and
  that message quotes the command: the test \<^verbatim>\<open>"CRITICAL" in i\<close> of line 153 finds the
  word in it, and a run with \<^verbatim>\<open>--fix\<close> removes the file.
\<close>

theorem warning_only_file_removed:
  "analyze_session [sample_a \<mapsto> critical_word_file] sample_a =
     Inr \<lparr>path = ''/sessions/a.jsonl'', name = ''a.jsonl'', size_kb = 5865 / 1024,
          message_count = 51, warmup_errors = 0,
          tool_calls = [(JStr ''echo CRITICAL'', 51)], is_sidechain = False,
          issues = [''WARNING: Command repeated 51x: echo CRITICAL...'']\<rparr>
   \<and> run_files (sample_args True False)
         (sample_world [sample_a] [sample_a \<mapsto> critical_word_file]) sample_a = None"
  using critical_word_file_stats
  by (simp add: main_def Let_def run_files_def sample_world_def sample_args_def
      sample_root_def sample_a_def os_remove_def)

subsection \<open>Exit status\<close>

text \<open>Without \<^verbatim>\<open>--json\<close> the exit status is the number of problematic files.\<close>

lemma human_exit_status:
  assumes "path_exists w (path_arg a)" and "\<not> json_flag a"
    and "analyze_all (files w) (find_sessions w (path_arg a)) [] [] = Inr (rs, qs)"
  shows "run_exit_status a w = length qs"
  using assms by (simp add: run_exit_status_def main_def Let_def split: prod.split)

text \<open>
  C2. The root exists and holds one file, which is problematic (eleven warmup errors).
  With \<^verbatim>\<open>--json\<close> the run prints the statistics and \<^verbatim>\<open>main\<close> returns nothing on line
  126, so the exit status is 0; without \<^verbatim>\<open>--json\<close> the same files give status 1.
\<close>

theorem json_mode_exit_status:
  "snd (main (sample_args False True) (sample_world [sample_a] [sample_a \<mapsto> warmup_file])) =
     (JsonDump [\<lparr>path = ''/sessions/a.jsonl'', name = ''a.jsonl'', size_kb = 447 / 1024,
                 message_count = 1, warmup_errors = 11, tool_calls = [], is_sidechain = False,
                 issues = [''CRITICAL: Warmup loop detected (11 warmup errors)'']\<rparr>],
      Return None)
   \<and> run_exit_status (sample_args False True)
         (sample_world [sample_a] [sample_a \<mapsto> warmup_file]) = 0
   \<and> run_exit_status (sample_args False False)
         (sample_world [sample_a] [sample_a \<mapsto> warmup_file]) = 1"
  by (simp add: run_defs warmup_file_def warmup_line_def warmup_loop_count warmup_item_def
      is_warmup_item_def is_true_value_def warmup_issue_def str_nat_samples)

subsection \<open>Runs without \<^verbatim>\<open>--fix\<close>\<close>

text \<open>
  C9. A run without \<^verbatim>\<open>--fix\<close> leaves the world as it found it: no file is created,
  changed or removed. A second run, on the world the first one left, prints the same
  statistics and ends the same way.
\<close>

theorem run_without_fix:
  "\<not> fix_flag a \<Longrightarrow>
     fst (main a w) = w \<and> snd (main a (fst (main a w))) = snd (main a w)"
  by (simp add: main_def Let_def split: sum.split prod.split)

theorem run_without_fix_witness:
  "\<not> fix_flag (sample_args False False)
   \<and> fst (main (sample_args False False) (sample_world [sample_a] [sample_a \<mapsto> warmup_file]))
       = sample_world [sample_a] [sample_a \<mapsto> warmup_file]
   \<and> snd (main (sample_args False False)
             (fst (main (sample_args False False)
                    (sample_world [sample_a] [sample_a \<mapsto> warmup_file]))))
       = snd (main (sample_args False False) (sample_world [sample_a] [sample_a \<mapsto> warmup_file]))"
  using run_without_fix [of "sample_args False False"
      "sample_world [sample_a] [sample_a \<mapsto> warmup_file]"]
  by (simp add: sample_args_def)

subsection \<open>Tool calls\<close>











subsection \<open>Counts against the number of lines\<close>











subsection \<open>What the detection appends\<close>

lemma kinds [simp]:
  "\<not> is_size_issue (warmup_issue w)" "\<not> is_size_issue (messages_issue m)"
  "\<not> is_size_issue (command_issue s n)" "is_size_issue (size_issue kb)"
  "\<not> is_command_issue (warmup_issue w)" "\<not> is_command_issue (messages_issue m)"
  "is_command_issue (command_issue s n)" "\<not> is_command_issue (size_issue kb)"
  by (simp_all add: is_size_issue_def is_command_issue_def warmup_issue_def messages_issue_def
      command_issue_def size_issue_def)

lemma command_loop_result:
  "command_loop c iss = Inr i3 \<Longrightarrow> i3 = iss @ command_issues_of c"
proof (induction c arbitrary: iss)
  case Nil
  then show ?case by (simp add: command_issues_of_def)
next
  case (Cons a c)
  obtain k n where a: "a = (k, n)" by (cases a)
  show ?case
  proof (cases "50 < n")
    case False
    then show ?thesis using Cons a by (simp add: command_issues_of_def often_def)
  next
    case True
    then obtain s where k: "k = JStr s" using Cons.prems a by (cases k) simp_all
    have "command_loop c (iss @ [command_issue s n]) = Inr i3"
      using Cons.prems a k True by simp
    from Cons.IH [OF this] show ?thesis using a k True
      by (simp add: command_issues_of_def often_def)
  qed
qed


lemma detect_issues_result:
  assumes "detect_issues st = Inr st'"
  shows "issues st' =
           issues st
           @ (if 10 < warmup_errors st then [warmup_issue (warmup_errors st)] else [])
           @ (if 500 < message_count st then [messages_issue (message_count st)] else [])
           @ command_issues_of (most_common 5 (tool_calls st))
           @ (if 2000 < size_kb st then [size_issue (size_kb st)] else [])"
proof -
  let ?i2 = "issues st
           @ (if 10 < warmup_errors st then [warmup_issue (warmup_errors st)] else [])
           @ (if 500 < message_count st then [messages_issue (message_count st)] else [])"
  obtain i3 where c: "command_loop (most_common 5 (tool_calls st)) ?i2 = Inr i3"
    and s: "st' = st\<lparr>issues := (if 2000 < size_kb st then i3 @ [size_issue (size_kb st)] else i3)\<rparr>"
    using assms by (simp add: detect_issues_def Let_def split: sum.splits if_splits)
  from command_loop_result [OF c] s show ?thesis by simp
qed



lemma round_half_even_nearest:
  assumes "0 \<le> x"
  shows "\<bar>of_nat (round_half_even x) - x\<bar> \<le> 1 / 2"
proof -
  have f: "of_nat (nat \<lfloor>x\<rfloor>) = (of_int \<lfloor>x\<rfloor> :: rat)" using assms by simp
  have lo: "of_int \<lfloor>x\<rfloor> \<le> x" and hi: "x < of_int \<lfloor>x\<rfloor> + 1" by linarith+
  show ?thesis
    unfolding round_half_even_def Let_def using f lo hi by (auto simp: abs_le_iff)
qed

subsection \<open>The size rule\<close>

lemma round_half_even_tie:
  assumes "0 \<le> x" and "\<bar>of_nat (round_half_even x) - x\<bar> = 1 / 2"
  shows "even (round_half_even x)"
proof -
  define f where "f = nat \<lfloor>x\<rfloor>"
  define d where "d = x - of_nat f"
  have "of_nat f = (of_int \<lfloor>x\<rfloor> :: rat)" using assms(1) by (simp add: f_def)
  moreover have "of_int \<lfloor>x\<rfloor> \<le> x" and "x < of_int \<lfloor>x\<rfloor> + 1" by linarith+
  ultimately have d0: "0 \<le> d" and d1: "d < 1" by (simp_all add: d_def)
  have x: "x = of_nat f + d" by (simp add: d_def)
  have r: "round_half_even x =
             (if d < 1 / 2 then f else if 1 / 2 < d then f + 1 else if even f then f else f + 1)"
    by (simp only: round_half_even_def Let_def f_def d_def)
  show ?thesis
  proof (cases "d < 1 / 2")
    case True
    then have rv: "round_half_even x = f" by (simp add: r)
    have "\<bar>of_nat (round_half_even x) - x\<bar> = d"
      using d0 unfolding rv d_def by linarith
    then show ?thesis using assms(2) True by simp
  next
    case False
    show ?thesis
    proof (cases "1 / 2 < d")
      case True
      then have rv: "round_half_even x = f + 1" using False by (simp add: r)
      have "\<bar>of_nat (round_half_even x) - x\<bar> = 1 - d"
        using d1 False unfolding rv d_def by simp
      then show ?thesis using assms(2) True by simp
    next
      case False
      then show ?thesis using \<open>\<not> d < 1 / 2\<close> by (simp add: r)
    qed
  qed
qed

lemma process_msg_fixed:
  "issues (snd (process_msg msg st)) = issues st"
  "size_kb (snd (process_msg msg st)) = size_kb st"
  by (cases msg; simp add: Let_def split: json.split prod.split)+

lemma read_lines_fixed:
  "issues (snd (read_lines ls st)) = issues st \<and> size_kb (snd (read_lines ls st)) = size_kb st"
proof (induction ls arbitrary: st)
  case Nil
  then show ?case by simp
next
  case (Cons l ls)
  show ?case
  proof (cases l)
    case Malformed
    then show ?thesis using Cons [of "st\<lparr>message_count := message_count st + 1\<rparr>"] by simp
  next
    case (Raised m)
    then show ?thesis by simp
  next
    case (Decoded msg)
    let ?st1 = "st\<lparr>message_count := message_count st + 1\<rparr>"
    obtain e st2 where r: "process_msg msg ?st1 = (e, st2)" by (cases "process_msg msg ?st1")
    have "issues st2 = issues st" "size_kb st2 = size_kb st"
      using process_msg_fixed [of msg ?st1] r by simp_all
    then show ?thesis using Cons [of st2] r Decoded by (cases e) simp_all
  qed
qed

lemma read_file_fixed:
  assumes "read_file f (init_stats p f) = (e, st)"
  shows "issues st = []" and "size_kb st = of_nat (st_size f) / 1024"
  using assms read_lines_fixed [of "file_lines f" "init_stats p f"]
  by (auto simp: read_file_def init_stats_def split: prod.splits option.splits)

lemma threshold: "(2000 < (of_nat n :: rat) / 1024) \<longleftrightarrow> 2000 * 1024 < n"
proof -
  have "(2000 < (of_nat n :: rat) / 1024) \<longleftrightarrow> (of_nat (2000 * 1024) :: rat) < of_nat n"
    by simp
  then show ?thesis by (simp only: of_nat_less_iff)
qed

text \<open>
  C8, as amended. The size rule is strict. A file whose reading ends without an
  exception and whose analysis returns gets exactly one size WARNING when it has more
  than 2000 \<open>\<times>\<close> 1024 bytes, and none when it has 2000 \<open>\<times>\<close> 1024 bytes or less. The
  WARNING cites the size in kilobytes rounded to a nearest whole number, and to the even
  one when the size is halfway between two. A file whose reading raises gets the
  read-error issue and no other, whatever its size.
\<close>

theorem size_rule:
  assumes "fs p = Some f"
  shows "(read_file f (init_stats p f) = (None, st0) \<and> analyze_session fs p = Inr st
          \<longrightarrow> filter is_size_issue (issues st) =
                (if 2000 * 1024 < st_size f
                 then [''WARNING: Large session file (''
                       @ str_nat (round_half_even (of_nat (st_size f) / 1024)) @ ''KB)'']
                 else []))
       \<and> \<bar>of_nat (round_half_even (of_nat (st_size f) / 1024)) - of_nat (st_size f) / 1024\<bar>
             \<le> (1 / 2 :: rat)
       \<and> (\<bar>of_nat (round_half_even (of_nat (st_size f) / 1024)) - of_nat (st_size f) / 1024\<bar>
             = (1 / 2 :: rat)
          \<longrightarrow> even (round_half_even (of_nat (st_size f) / 1024)))
       \<and> (read_file f (init_stats p f) = (Some e, st1)
          \<longrightarrow> analyze_session fs p = Inr (st1\<lparr>issues := [''Error reading file: '' @ e]\<rparr>))"
proof (intro conjI impI)
  assume a: "read_file f (init_stats p f) = (None, st0) \<and> analyze_session fs p = Inr st"
  from a have r: "read_file f (init_stats p f) = (None, st0)"
    and an: "analyze_session fs p = Inr st" by simp_all
  have d: "detect_issues st0 = Inr st"
    using assms r an by (simp add: analyze_session_def)
  have i: "issues st0 = []" and k: "size_kb st0 = of_nat (st_size f) / 1024"
    using read_file_fixed [OF r] by simp_all
  have cmd: "filter is_size_issue (command_issues_of c) = []" for c
    by (auto simp: command_issues_of_def filter_empty_conv split: json.splits)
  have "filter is_size_issue (issues st) =
          (if 2000 < size_kb st0 then [size_issue (size_kb st0)] else [])"
    using detect_issues_result [OF d] i cmd by simp
  then show "filter is_size_issue (issues st) =
           (if 2000 * 1024 < st_size f
            then [''WARNING: Large session file (''
                  @ str_nat (round_half_even (of_nat (st_size f) / 1024)) @ ''KB)'']
            else [])"
    unfolding k threshold by (simp add: size_issue_def fmt_0f_def)
next
  show "\<bar>of_nat (round_half_even (of_nat (st_size f) / 1024)) - of_nat (st_size f) / 1024\<bar>
             \<le> (1 / 2 :: rat)"
    by (rule round_half_even_nearest) simp
next
  assume "\<bar>of_nat (round_half_even (of_nat (st_size f) / 1024)) - of_nat (st_size f) / 1024\<bar>
             = (1 / 2 :: rat)"
  then show "even (round_half_even (of_nat (st_size f) / 1024))"
    by (rule round_half_even_tie [rotated]) simp
next
  assume r: "read_file f (init_stats p f) = (Some e, st1)"
  have "issues st1 = []" using read_file_fixed [OF r] by simp
  then show "analyze_session fs p = Inr (st1\<lparr>issues := [''Error reading file: '' @ e]\<rparr>)"
    using assms r by (simp add: analyze_session_def read_error_issue_def)
qed

lemma large_file_stats:
  "analyze_session [sample_a \<mapsto> large_file] sample_a =
       Inr \<lparr>path = ''/sessions/a.jsonl'', name = ''a.jsonl'', size_kb = 2049,
            message_count = 1, warmup_errors = 0, tool_calls = [],
            is_sidechain = False, issues = [''WARNING: Large session file (2049KB)'']\<rparr>"
  by (simp add: run_defs large_file_def empty_line_def size_issue_def fmt_0f_def
      round_half_even_def str_nat_samples)

lemma exact_file_stats:
  "analyze_session [sample_a \<mapsto> exact_file] sample_a =
       Inr \<lparr>path = ''/sessions/a.jsonl'', name = ''a.jsonl'', size_kb = 2000,
            message_count = 1, warmup_errors = 0, tool_calls = [],
            is_sidechain = False, issues = []\<rparr>"
  by (simp add: run_defs exact_file_def empty_line_def)

lemma tie_floor: "\<lfloor>4101 / 2 :: rat\<rfloor> = 2050"
  by (rule floor_unique) simp_all

lemma tie_file_stats:
  "analyze_session [sample_a \<mapsto> tie_file] sample_a =
       Inr \<lparr>path = ''/sessions/a.jsonl'', name = ''a.jsonl'', size_kb = 4101 / 2,
            message_count = 1, warmup_errors = 0, tool_calls = [],
            is_sidechain = False, issues = [''WARNING: Large session file (2050KB)'']\<rparr>"
  by (simp add: run_defs tie_file_def empty_line_def size_issue_def fmt_0f_def
      round_half_even_def tie_floor str_nat_samples)

lemma big_unreadable_file_stats:
  "analyze_session [sample_a \<mapsto> big_unreadable_file] sample_a =
       Inr \<lparr>path = ''/sessions/a.jsonl'', name = ''a.jsonl'', size_kb = 3000000 / 1024,
            message_count = 0, warmup_errors = 0, tool_calls = [],
            is_sidechain = False, issues = [''Error reading file: [Errno 5] Input/output error'']\<rparr>"
  by (simp add: run_defs big_unreadable_file_def read_error_issue_def)

text \<open>
  The rule on four files: 2049 KB (one WARNING, citing 2049), exactly 2000 KB (none),
  2050.5 KB (one WARNING, citing the even 2050), and 3000000 bytes whose reading raises
  (the read-error issue alone).
\<close>

theorem size_rule_witness:
  "read_file large_file (init_stats sample_a large_file) =
        (None, (init_stats sample_a large_file)\<lparr>message_count := 1\<rparr>)
   \<and> analyze_session [sample_a \<mapsto> large_file] sample_a =
       Inr \<lparr>path = ''/sessions/a.jsonl'', name = ''a.jsonl'', size_kb = 2049,
            message_count = 1, warmup_errors = 0, tool_calls = [],
            is_sidechain = False, issues = [''WARNING: Large session file (2049KB)'']\<rparr>
   \<and> filter is_size_issue [''WARNING: Large session file (2049KB)'']
       = [''WARNING: Large session file (2049KB)'']
   \<and> read_file exact_file (init_stats sample_a exact_file) =
        (None, (init_stats sample_a exact_file)\<lparr>message_count := 1\<rparr>)
   \<and> analyze_session [sample_a \<mapsto> exact_file] sample_a =
       Inr \<lparr>path = ''/sessions/a.jsonl'', name = ''a.jsonl'', size_kb = 2000,
            message_count = 1, warmup_errors = 0, tool_calls = [],
            is_sidechain = False, issues = []\<rparr>
   \<and> analyze_session [sample_a \<mapsto> tie_file] sample_a =
       Inr \<lparr>path = ''/sessions/a.jsonl'', name = ''a.jsonl'', size_kb = 4101 / 2,
            message_count = 1, warmup_errors = 0, tool_calls = [],
            is_sidechain = False, issues = [''WARNING: Large session file (2050KB)'']\<rparr>
   \<and> \<bar>of_nat (round_half_even (of_nat (st_size tie_file) / 1024)) - of_nat (st_size tie_file) / 1024\<bar>
        = (1 / 2 :: rat)
   \<and> round_half_even (of_nat (st_size tie_file) / 1024) = 2050
   \<and> read_file big_unreadable_file (init_stats sample_a big_unreadable_file) =
        (Some ''[Errno 5] Input/output error'', init_stats sample_a big_unreadable_file)
   \<and> analyze_session [sample_a \<mapsto> big_unreadable_file] sample_a =
       Inr ((init_stats sample_a big_unreadable_file)
              \<lparr>issues := [''Error reading file: [Errno 5] Input/output error'']\<rparr>)"
proof -
  have a1: "[sample_a \<mapsto> large_file] sample_a = Some large_file" by simp
  have a2: "[sample_a \<mapsto> exact_file] sample_a = Some exact_file" by simp
  have a3: "[sample_a \<mapsto> tie_file] sample_a = Some tie_file" by simp
  have a4: "[sample_a \<mapsto> big_unreadable_file] sample_a = Some big_unreadable_file" by simp
  have r1: "read_file large_file (init_stats sample_a large_file) =
        (None, (init_stats sample_a large_file)\<lparr>message_count := 1\<rparr>)"
    by (simp add: read_file_def large_file_def init_stats_def empty_line_def dict_get_def)
  have r2: "read_file exact_file (init_stats sample_a exact_file) =
        (None, (init_stats sample_a exact_file)\<lparr>message_count := 1\<rparr>)"
    by (simp add: read_file_def exact_file_def init_stats_def empty_line_def dict_get_def)
  have r4: "read_file big_unreadable_file (init_stats sample_a big_unreadable_file) =
        (Some ''[Errno 5] Input/output error'', init_stats sample_a big_unreadable_file)"
    by (simp add: read_file_def big_unreadable_file_def)
  have t: "round_half_even (of_nat (st_size tie_file) / 1024) = 2050"
    by (simp add: tie_file_def round_half_even_def Let_def tie_floor)
  have t': "\<bar>of_nat (round_half_even (of_nat (st_size tie_file) / 1024)) - of_nat (st_size tie_file) / 1024\<bar>
        = (1 / 2 :: rat)"
    unfolding t by (simp add: tie_file_def)
  let ?L = "\<lparr>path = ''/sessions/a.jsonl'', name = ''a.jsonl'', size_kb = 2049,
            message_count = 1, warmup_errors = 0, tool_calls = [],
            is_sidechain = False, issues = [''WARNING: Large session file (2049KB)'']\<rparr>"
  let ?X = "\<lparr>path = ''/sessions/a.jsonl'', name = ''a.jsonl'', size_kb = 2000,
            message_count = 1, warmup_errors = 0, tool_calls = [],
            is_sidechain = False, issues = []\<rparr>"
  note large = size_rule [where fs = "[sample_a \<mapsto> large_file]" and p = sample_a
      and ?st0.0 = "(init_stats sample_a large_file)\<lparr>message_count := 1\<rparr>" and st = ?L, OF a1]
  note exact = size_rule [where fs = "[sample_a \<mapsto> exact_file]" and p = sample_a
      and ?st0.0 = "(init_stats sample_a exact_file)\<lparr>message_count := 1\<rparr>" and st = ?X, OF a2]
  note tie = size_rule [where fs = "[sample_a \<mapsto> tie_file]" and p = sample_a, OF a3]
  note unread = size_rule [where fs = "[sample_a \<mapsto> big_unreadable_file]" and p = sample_a
      and e = "''[Errno 5] Input/output error''"
      and ?st1.0 = "init_stats sample_a big_unreadable_file", OF a4]
  from large r1 large_file_stats
  have l: "filter is_size_issue (issues ?L) =
             (if 2000 * 1024 < st_size large_file
              then [''WARNING: Large session file (''
                    @ str_nat (round_half_even (of_nat (st_size large_file) / 1024)) @ ''KB)'']
              else [])"
    by blast
  from exact r2 exact_file_stats
  have x: "filter is_size_issue (issues ?X) =
             (if 2000 * 1024 < st_size exact_file
              then [''WARNING: Large session file (''
                    @ str_nat (round_half_even (of_nat (st_size exact_file) / 1024)) @ ''KB)'']
              else [])"
    by blast
  from unread r4 have u: "analyze_session [sample_a \<mapsto> big_unreadable_file] sample_a =
       Inr ((init_stats sample_a big_unreadable_file)
              \<lparr>issues := [''Error reading file: [Errno 5] Input/output error'']\<rparr>)"
    by simp
  from tie t' have ev: "even (round_half_even (of_nat (st_size tie_file) / 1024))"
    by blast
  have l': "filter is_size_issue [''WARNING: Large session file (2049KB)'']
       = [''WARNING: Large session file (2049KB)'']"
    using l by (simp add: large_file_def round_half_even_def str_nat_samples)
  show ?thesis
    using r1 r2 r4 t t' u l' large_file_stats exact_file_stats tie_file_stats
    by simp
qed

text \<open>
  The claim as written fails: a file of 3000000 bytes whose reading raises gets the
  read-error issue alone; line 73 returns before the size is looked at.
\<close>

theorem unreadable_large_file_no_size_warning:
  "analyze_session [sample_a \<mapsto> big_unreadable_file] sample_a =
       Inr \<lparr>path = ''/sessions/a.jsonl'', name = ''a.jsonl'', size_kb = 3000000 / 1024,
            message_count = 0, warmup_errors = 0, tool_calls = [],
            is_sidechain = False, issues = [''Error reading file: [Errno 5] Input/output error'']\<rparr>"
  by (rule big_unreadable_file_stats)

subsection \<open>The rule of repeated commands\<close>


lemma most_common_stable:
  "filter (\<lambda>e. snd e = n) (sort_key (\<lambda>(k, cnt). - int cnt) (c :: counter))
     = filter (\<lambda>e. snd e = n) c"
  using sort_key_stable [of "\<lambda>(k :: json, cnt :: nat). - int cnt" "- int n" c]
  by (simp add: case_prod_beta)

















text \<open>
  A name that is not text: fifty-one calls whose command is \<^verbatim>\<open>null\<close> are counted under
  \<^verbatim>\<open>None\<close>, and the slice \<^verbatim>\<open>cmd[:50]\<close> of line 85 raises \<^verbatim>\<open>TypeError\<close> outside every
  \<^verbatim>\<open>try\<close>: the analysis does not return.
\<close>

lemma null_lines_read:
  "read_lines (replicate n null_command_line) st =
     (None, st\<lparr>message_count := message_count st + n,
               tool_calls := (counter_incr JNull ^^ n) (tool_calls st)\<rparr>)"
  by (induction n arbitrary: st) (simp_all add: null_command_line_def dict_get_def funpow_swap1)

lemma null_command_crash:
  "analyze_session [sample_a \<mapsto> null_command_file] sample_a = Inl (NotSubscriptable JNull)"
proof -
  have "(counter_incr JNull ^^ 51) [] = [(JNull, 51)]"
    using counter_incr_fresh [where k = JNull and n = 50] by simp
  then show ?thesis
    by (simp add: run_defs null_command_file_def null_lines_read)
qed

subsection \<open>Lines that do not decode\<close>









end
